theory Spec2Isabelle
  imports Complex_Main "HOL-Library.Word" "HOL-Library.AList" "HOL-Library.Monad_Syntax"
    "HOL-Library.Log_Nat"
begin

section \<open>Floats\<close>

text \<open>
  A Python \<^verbatim>\<open>float\<close> is a binary64 value: a finite one, given by the rational it
  denotes (\<open>Finite 0\<close> is the zero with the positive sign, \<open>NegZero\<close> the one with
  the negative sign), an infinity, or a NaN.  \<open>to_double\<close> rounds a rational to
  the nearest binary64 value, a tie going to the even significand: 53 significant
  bits, the smallest spacing \<open>2\<^sup>-\<^sup>1\<^sup>0\<^sup>7\<^sup>4\<close>, infinity from \<open>2\<^sup>1\<^sup>0\<^sup>2\<^sup>4\<close> on.  The
  significand \<open>m\<close> is at most \<open>2\<^sup>5\<^sup>3\<close>, so the rounded magnitude \<open>m \<sqdot> 2\<^sup>q\<close> reaches
  \<open>2\<^sup>1\<^sup>0\<^sup>2\<^sup>4\<close> exactly when \<open>q\<close> is above 971, or is 971 with \<open>m = 2\<^sup>5\<^sup>3\<close>.
\<close>

datatype pyfloat = Finite rat | NegZero | PosInf | NegInf | NaN

definition round_half_even :: "rat \<Rightarrow> int" where
  "round_half_even x =
     (let f = \<lfloor>x\<rfloor>; r = x - of_int f in
      if r < 1 / 2 then f
      else if 1 / 2 < r then f + 1
      else if even f then f else f + 1)"

definition pow2 :: "int \<Rightarrow> rat" where
  "pow2 k = (if 0 \<le> k then of_int (2 ^ nat k) else 1 / of_int (2 ^ nat (- k)))"

definition floor_log2 :: "rat \<Rightarrow> int" where
  "floor_log2 x =
     (let (p, q) = quotient_of \<bar>x\<bar>; k = bitlen p - bitlen q
      in if pow2 k \<le> \<bar>x\<bar> then k else k - 1)"

definition to_double :: "rat \<Rightarrow> pyfloat" where
  "to_double x =
     (if x = 0 then Finite 0
      else
        let q = max (floor_log2 x - 52) (- 1074);
            m = round_half_even (\<bar>x\<bar> / pow2 q);
            y = of_int m * pow2 q
        in if 971 < q \<or> (q = 971 \<and> 2 ^ 53 \<le> m) then (if 0 < x then PosInf else NegInf)
           else if y = 0 then (if 0 < x then Finite 0 else NegZero)
           else Finite (if 0 < x then y else - y))"

text \<open>
  \<^verbatim>\<open>float(n)\<close> for an int, as mixed arithmetic applies it: the nearest float, and
  \<^verbatim>\<open>OverflowError\<close> (\<open>None\<close>) when the int is too large for one.
\<close>

definition float_of_int :: "int \<Rightarrow> pyfloat option" where
  "float_of_int n =
     (case to_double (of_int n) of PosInf \<Rightarrow> None | NegInf \<Rightarrow> None | f \<Rightarrow> Some f)"

fun is_neg :: "pyfloat \<Rightarrow> bool" where
  "is_neg (Finite x) = (x < 0)"
| "is_neg NegZero = True"
| "is_neg NegInf = True"
| "is_neg PosInf = False"
| "is_neg NaN = False"

fun is_zero :: "pyfloat \<Rightarrow> bool" where
  "is_zero (Finite x) = (x = 0)"
| "is_zero NegZero = True"
| "is_zero _ = False"

fun is_finite :: "pyfloat \<Rightarrow> bool" where
  "is_finite (Finite x) = True"
| "is_finite NegZero = True"
| "is_finite _ = False"

fun magnitude :: "pyfloat \<Rightarrow> rat" where
  "magnitude (Finite x) = \<bar>x\<bar>"
| "magnitude _ = 0"

definition signed_zero :: "bool \<Rightarrow> pyfloat" where
  "signed_zero neg = (if neg then NegZero else Finite 0)"

definition signed_inf :: "bool \<Rightarrow> pyfloat" where
  "signed_inf neg = (if neg then NegInf else PosInf)"

definition signed :: "bool \<Rightarrow> rat \<Rightarrow> rat" where
  "signed neg x = (if neg then - x else x)"

text \<open>
  The product and the sum of two floats: the exact result, rounded.  A NaN
  operand, infinity times zero and the sum of opposite infinities give NaN; a
  zero product takes the sign of the operands; a zero sum is positive unless both
  operands are the negative zero.
\<close>

definition fmul :: "pyfloat \<Rightarrow> pyfloat \<Rightarrow> pyfloat" where
  "fmul a b =
     (if a = NaN \<or> b = NaN then NaN
      else if \<not> is_finite a \<or> \<not> is_finite b
      then (if is_zero a \<or> is_zero b then NaN else signed_inf (is_neg a \<noteq> is_neg b))
      else if is_zero a \<or> is_zero b then signed_zero (is_neg a \<noteq> is_neg b)
      else to_double (signed (is_neg a \<noteq> is_neg b) (magnitude a * magnitude b)))"

definition fadd :: "pyfloat \<Rightarrow> pyfloat \<Rightarrow> pyfloat" where
  "fadd a b =
     (if a = NaN \<or> b = NaN then NaN
      else if \<not> is_finite a
      then (if \<not> is_finite b \<and> is_neg a \<noteq> is_neg b then NaN else a)
      else if \<not> is_finite b then b
      else if is_zero a \<and> is_zero b then signed_zero (is_neg a \<and> is_neg b)
      else to_double (signed (is_neg a) (magnitude a) + signed (is_neg b) (magnitude b)))"

fun fneg :: "pyfloat \<Rightarrow> pyfloat" where
  "fneg (Finite x) = (if x = 0 then NegZero else Finite (- x))"
| "fneg NegZero = Finite 0"
| "fneg PosInf = NegInf"
| "fneg NegInf = PosInf"
| "fneg NaN = NaN"

definition fsub :: "pyfloat \<Rightarrow> pyfloat \<Rightarrow> pyfloat" where
  "fsub a b = fadd a (fneg b)"

text \<open>\<^verbatim>\<open>fabs(a) >= fabs(b)\<close>; a comparison with a NaN is false.\<close>

definition fabs_ge :: "pyfloat \<Rightarrow> pyfloat \<Rightarrow> bool" where
  "fabs_ge a b =
     (if a = NaN \<or> b = NaN then False
      else if \<not> is_finite a then True
      else if \<not> is_finite b then False
      else magnitude b \<le> magnitude a)"

section \<open>Values, documents and errors\<close>

text \<open>
  The service in \<^verbatim>\<open>main.py\<close> passes untyped documents (Python dicts read from a
  schemaless store, or decoded from a JSON request body) through pydantic models.
  A Python value is one of the shapes below.  The store's native identifier
  (\<^verbatim>\<open>bson.ObjectId\<close>) is a 12-byte value, here a 96-bit word.

  A dict is an association list in insertion order; \<open>map_of\<close> is the lookup
  \<^verbatim>\<open>d.get(k)\<close>.
\<close>

datatype pyval =
    VNone
  | VBool bool
  | VInt int
  | VFloat pyfloat
  | VStr string
  | VOid "96 word"
  | VList "pyval list"
  | VDict "(string \<times> pyval) list"

type_synonym doc = "(string \<times> pyval) list"

text \<open>
  Every \<^verbatim>\<open>raise\<close> of the program is a value.  \<open>HTTPException\<close> carries the status
  code and detail the source gives it.  \<open>RequestValidationError\<close> is what the
  framework answers (status 422) when a request body does not validate against the
  declared request model; \<open>ValidationError\<close> is pydantic's error when a model is
  constructed inside a handler; \<open>AttributeError\<close> is a method call on \<^verbatim>\<open>None\<close>;
  \<open>InvalidId\<close> is \<^verbatim>\<open>ObjectId(s)\<close> on a string that is no identifier;
  \<open>OverflowError\<close> is the conversion of an int too large for a float;
  \<open>ValueError\<close> is the JSON rendering of a float that is infinite or NaN.
\<close>

datatype error =
    HTTPException nat string
  | RequestValidationError
  | ValidationError
  | AttributeError
  | InvalidId
  | OverflowError
  | ValueError

section \<open>Field validation of the pydantic models\<close>

text \<open>
  A field declared \<^verbatim>\<open>str\<close> accepts a string only.  A field declared
  \<^verbatim>\<open>float\<close>, \<^verbatim>\<open>int\<close> or \<^verbatim>\<open>bool\<close> accepts a value of that type as it is, a
  \<^verbatim>\<open>float\<close> field also an int that converts to a float; \<^verbatim>\<open>None\<close>, an
  identifier, a list and a dict are rejected.  What pydantic's lax mode does with the remaining inputs (a numeric
  string for a number, 0 or 1 for a bool, and so on) is left unspecified: the
  equations below say nothing about them, and no result depends on them.
\<close>

fun validate_str :: "pyval \<Rightarrow> string option" where
  "validate_str (VStr s) = Some s"
| "validate_str _ = None"

fun validate_float :: "pyval \<Rightarrow> pyfloat option" where
  "validate_float (VFloat x) = Some x"
| "validate_float (VInt n) = float_of_int n"
| "validate_float VNone = None"
| "validate_float (VOid w) = None"
| "validate_float (VList vs) = None"
| "validate_float (VDict d) = None"

fun validate_int :: "pyval \<Rightarrow> int option" where
  "validate_int (VInt n) = Some n"
| "validate_int VNone = None"
| "validate_int (VOid w) = None"
| "validate_int (VList vs) = None"
| "validate_int (VDict d) = None"

fun validate_bool :: "pyval \<Rightarrow> bool option" where
  "validate_bool (VBool b) = Some b"
| "validate_bool VNone = None"
| "validate_bool (VOid w) = None"
| "validate_bool (VList vs) = None"
| "validate_bool (VDict d) = None"

text \<open>\<^verbatim>\<open>Optional[T]\<close>: \<^verbatim>\<open>None\<close> is accepted, anything else is validated as \<^verbatim>\<open>T\<close>.\<close>

definition validate_optional :: "(pyval \<Rightarrow> 'a option) \<Rightarrow> pyval \<Rightarrow> 'a option option" where
  "validate_optional v x = (if x = VNone then Some None else map_option Some (v x))"

text \<open>A field without a default must be present; one with a default takes it when the
  key is missing.\<close>

definition required :: "(pyval \<Rightarrow> 'a option) \<Rightarrow> doc \<Rightarrow> string \<Rightarrow> 'a option" where
  "required v d k = (case map_of d k of None \<Rightarrow> None | Some x \<Rightarrow> v x)"

definition with_default :: "(pyval \<Rightarrow> 'a option) \<Rightarrow> 'a \<Rightarrow> doc \<Rightarrow> string \<Rightarrow> 'a option" where
  "with_default v dflt d k = (case map_of d k of None \<Rightarrow> Some dflt | Some x \<Rightarrow> v x)"

section \<open>The store's identifier\<close>

text \<open>
  \<^verbatim>\<open>str(oid)\<close> of an \<^verbatim>\<open>ObjectId\<close> is its 24 lower-case hexadecimal digits, most
  significant first.  The constructor \<^verbatim>\<open>ObjectId(s)\<close> on a string accepts 24
  hexadecimal digits (of either case) and raises \<^verbatim>\<open>InvalidId\<close> on anything else:
  \<open>None\<close> below.
\<close>

definition hex_digit :: "nat \<Rightarrow> char" where
  "hex_digit n = ''0123456789abcdef'' ! n"

definition hex_value :: "char \<Rightarrow> nat option" where
  "hex_value c =
     (let n = (of_char c :: nat) in
      if 48 \<le> n \<and> n \<le> 57 then Some (n - 48)
      else if 97 \<le> n \<and> n \<le> 102 then Some (n - 87)
      else if 65 \<le> n \<and> n \<le> 70 then Some (n - 55)
      else None)"

fun to_hex :: "nat \<Rightarrow> nat \<Rightarrow> string" where
  "to_hex 0 n = []"
| "to_hex (Suc k) n = to_hex k (n div 16) @ [hex_digit (n mod 16)]"

fun from_hex :: "nat \<Rightarrow> string \<Rightarrow> nat option" where
  "from_hex acc [] = Some acc"
| "from_hex acc (c # cs) =
     (case hex_value c of None \<Rightarrow> None | Some v \<Rightarrow> from_hex (16 * acc + v) cs)"

definition oid_str :: "96 word \<Rightarrow> string" where
  "oid_str w = to_hex 24 (unat w)"

definition ObjectId :: "string \<Rightarrow> 96 word option" where
  "ObjectId s = (if length s = 24 then map_option word_of_nat (from_hex 0 s) else None)"

text \<open>
  \<^verbatim>\<open>str(v)\<close> as \<^verbatim>\<open>_to_id_str\<close> applies it to the value under \<^verbatim>\<open>_id\<close>.  The store
  assigns identifiers of type \<^verbatim>\<open>ObjectId\<close>; \<^verbatim>\<open>str\<close> of a number or a container is
  not modelled.
\<close>

fun py_str :: "pyval \<Rightarrow> string" where
  "py_str (VOid w) = oid_str w"
| "py_str (VStr s) = s"
| "py_str VNone = ''None''"
| "py_str (VBool b) = (if b then ''True'' else ''False'')"

section \<open>The product models\<close>

text \<open>
  \<^verbatim>\<open>class ProductIn(BaseModel)\<close> and \<^verbatim>\<open>class ProductOut(ProductIn)\<close>.  The fields
  \<^verbatim>\<open>image\<close> and \<^verbatim>\<open>id\<close> are written \<open>image'\<close> and \<open>id'\<close>.
\<close>

record ProductIn =
  title :: string
  price :: pyfloat
  category :: string
  description :: "string option"
  image' :: "string option"
  in_stock :: bool

record ProductOut = ProductIn +
  id' :: string

text \<open>
  \<^verbatim>\<open>ProductOut(**d)\<close>: every declared field is validated, a key that is no field is
  ignored, and any failure raises \<^verbatim>\<open>ValidationError\<close>.
\<close>

definition ProductOut_init :: "doc \<Rightarrow> error + ProductOut" where
  "ProductOut_init d =
     (case do {
        t \<leftarrow> required validate_str d ''title'';
        p \<leftarrow> required validate_float d ''price'';
        c \<leftarrow> required validate_str d ''category'';
        de \<leftarrow> with_default (validate_optional validate_str) None d ''description'';
        im \<leftarrow> with_default (validate_optional validate_str) None d ''image'';
        s \<leftarrow> with_default validate_bool True d ''in_stock'';
        i \<leftarrow> required validate_str d ''id'';
        Some \<lparr>title = t, price = p, category = c, description = de, image' = im,
               in_stock = s, id' = i\<rparr>
      } of None \<Rightarrow> Inl ValidationError | Some out \<Rightarrow> Inr out)"

text \<open>
  \<^verbatim>\<open>dict(p)\<close> for a model instance \<open>p\<close>: iterating a pydantic model yields its
  (field name, value) pairs in declaration order.
\<close>

definition opt_str :: "string option \<Rightarrow> pyval" where
  "opt_str x = (case x of None \<Rightarrow> VNone | Some s \<Rightarrow> VStr s)"

definition dict_of_ProductOut :: "ProductOut \<Rightarrow> doc" where
  "dict_of_ProductOut p =
     [(''title'', VStr (title p)), (''price'', VFloat (price p)),
      (''category'', VStr (category p)), (''description'', opt_str (description p)),
      (''image'', opt_str (image' p)), (''in_stock'', VBool (in_stock p)),
      (''id'', VStr (id' p))]"

section \<open>Helpers: \<^verbatim>\<open>_to_id_str\<close> and \<^verbatim>\<open>_format_product\<close>\<close>

text \<open>
  The argument of both helpers is what \<^verbatim>\<open>find_one\<close> may return: \<^verbatim>\<open>None\<close> or a
  dict.  \<^verbatim>\<open>if not doc: return doc\<close> hands back \<^verbatim>\<open>None\<close> and the empty dict as they
  are.  Otherwise the dict is copied; if \<^verbatim>\<open>d.get("_id")\<close> is not \<^verbatim>\<open>None\<close>, the key
  \<^verbatim>\<open>_id\<close> is popped and its string form stored under \<^verbatim>\<open>id\<close>.
\<close>

fun to_id_str :: "doc option \<Rightarrow> doc option" where
  "to_id_str None = None"
| "to_id_str (Some doc) =
     (if doc = [] then Some doc
      else (case map_of doc ''_id'' of
              None \<Rightarrow> Some doc
            | Some v \<Rightarrow>
                if v \<noteq> VNone
                then Some (AList.update ''id'' (VStr (py_str v)) (AList.delete ''_id'' doc))
                else Some doc))"

text \<open>\<^verbatim>\<open>d.setdefault(k, v)\<close>: the key is added, last, only when it is absent.\<close>

definition setdefault :: "string \<Rightarrow> pyval \<Rightarrow> doc \<Rightarrow> doc" where
  "setdefault k v d = (case map_of d k of None \<Rightarrow> d @ [(k, v)] | Some _ \<Rightarrow> d)"

text \<open>The six \<^verbatim>\<open>setdefault\<close> calls of \<^verbatim>\<open>_format_product\<close>, in the source's order.\<close>

definition ensure_fields :: "doc \<Rightarrow> doc" where
  "ensure_fields d =
     setdefault ''in_stock'' (VBool True)
       (setdefault ''image'' VNone
         (setdefault ''description'' VNone
           (setdefault ''category'' (VStr ''General'')
             (setdefault ''price'' (VFloat (Finite 0))
               (setdefault ''title'' (VStr ''Untitled'') d)))))"

text \<open>
  \<^verbatim>\<open>_format_product\<close>.  When \<^verbatim>\<open>_to_id_str\<close> returns \<^verbatim>\<open>None\<close> the first
  \<^verbatim>\<open>d.setdefault\<close> raises \<^verbatim>\<open>AttributeError\<close>.
\<close>

definition format_product :: "doc option \<Rightarrow> error + ProductOut" where
  "format_product doc =
     (case to_id_str doc of
        None \<Rightarrow> Inl AttributeError
      | Some d \<Rightarrow> ProductOut_init (ensure_fields d))"

section \<open>Checkout\<close>

text \<open>
  \<^verbatim>\<open>class CheckoutItem(BaseModel)\<close> with the fields \<^verbatim>\<open>id\<close>, \<^verbatim>\<open>title\<close>,
  \<^verbatim>\<open>price\<close>, \<^verbatim>\<open>qty\<close> (the first three are written with the prefix \<open>item_\<close>, the
  product models own the plain names), and \<^verbatim>\<open>class CheckoutRequest(BaseModel)\<close>.
  Neither class declares a constraint on a field.
\<close>

record CheckoutItem =
  item_id :: string
  item_title :: string
  item_price :: pyfloat
  qty :: int

record CheckoutRequest =
  items :: "CheckoutItem list"
  email :: "string option"

text \<open>
  The request body is decoded from JSON and validated against
  \<^verbatim>\<open>CheckoutRequest\<close> before the handler runs.  A model is built from a dict, a
  \<^verbatim>\<open>List[...]\<close> field from a list whose elements all validate.
\<close>

fun CheckoutItem_validate :: "pyval \<Rightarrow> CheckoutItem option" where
  "CheckoutItem_validate (VDict d) =
     do {
       i \<leftarrow> required validate_str d ''id'';
       t \<leftarrow> required validate_str d ''title'';
       p \<leftarrow> required validate_float d ''price'';
       q \<leftarrow> required validate_int d ''qty'';
       Some \<lparr>item_id = i, item_title = t, item_price = p, qty = q\<rparr>
     }"
| "CheckoutItem_validate _ = None"

fun validate_list :: "(pyval \<Rightarrow> 'a option) \<Rightarrow> pyval \<Rightarrow> 'a list option" where
  "validate_list v (VList xs) = those (map v xs)"
| "validate_list v _ = None"

fun CheckoutRequest_validate :: "pyval \<Rightarrow> CheckoutRequest option" where
  "CheckoutRequest_validate (VDict d) =
     do {
       its \<leftarrow> required (validate_list CheckoutItem_validate) d ''items'';
       e \<leftarrow> with_default (validate_optional validate_str) None d ''email'';
       Some \<lparr>items = its, email = e\<rparr>
     }"
| "CheckoutRequest_validate _ = None"

text \<open>
  \<^verbatim>\<open>i.price * i.qty\<close>: a float times an int.  The int is converted to float
  first, which raises \<^verbatim>\<open>OverflowError\<close> when it is too large, and the product is
  the float product.
\<close>

definition line_total :: "CheckoutItem \<Rightarrow> error + pyfloat" where
  "line_total i =
     (case float_of_int (qty i) of
        None \<Rightarrow> Inl OverflowError
      | Some q \<Rightarrow> Inr (fmul (item_price i) q))"

text \<open>The generator \<^verbatim>\<open>i.price * i.qty for i in req.items\<close>: the first raise ends it.\<close>

fun line_totals :: "CheckoutItem list \<Rightarrow> error + pyfloat list" where
  "line_totals [] = Inr []"
| "line_totals (i # rest) =
     (case line_total i of
        Inl e \<Rightarrow> Inl e
      | Inr t \<Rightarrow> (case line_totals rest of Inl e \<Rightarrow> Inl e | Inr ts \<Rightarrow> Inr (t # ts)))"

text \<open>
  \<^verbatim>\<open>sum\<close> over floats.  It starts from the int \<^verbatim>\<open>0\<close>, so the sum of nothing is
  that int, and the first float \<open>x\<close> gives \<^verbatim>\<open>0.0 + x\<close>.  From there CPython
  before version 3.12 adds the floats in turn; from 3.12 on it carries Neumaier's
  compensation \<open>c\<close> along and adds it at the end when it is finite and not zero.
  The flag \<open>compensated\<close> says which of the two the interpreter does.
\<close>

datatype pynum = PyInt int | PyFloat pyfloat

fun sum_plain :: "pyfloat \<Rightarrow> pyfloat list \<Rightarrow> pyfloat" where
  "sum_plain f [] = f"
| "sum_plain f (x # xs) = sum_plain (fadd f x) xs"

fun sum_compensated :: "pyfloat \<Rightarrow> pyfloat \<Rightarrow> pyfloat list \<Rightarrow> pyfloat" where
  "sum_compensated f c [] = (if \<not> is_zero c \<and> is_finite c then fadd f c else f)"
| "sum_compensated f c (x # xs) =
     (let t = fadd f x;
          c' = (if fabs_ge f x then fadd c (fadd (fsub f t) x)
                else fadd c (fadd (fsub x t) f))
      in sum_compensated t c' xs)"

definition py_sum :: "bool \<Rightarrow> pyfloat list \<Rightarrow> pynum" where
  "py_sum compensated xs =
     (case xs of
        [] \<Rightarrow> PyInt 0
      | x # rest \<Rightarrow>
          let f = fadd (Finite 0) x
          in PyFloat (if compensated then sum_compensated f (Finite 0) rest
                      else sum_plain f rest))"

text \<open>
  \<^verbatim>\<open>round(x, ndigits)\<close> for \<^verbatim>\<open>ndigits\<close> from 0 to 323.  An int is returned as
  it is, and so are a zero, an infinity and a NaN.  Any other float is rounded,
  in its exact value, to the nearest multiple of \<open>10\<^sup>-\<^sup>n\<close>, a tie going to the
  even one, and the float nearest to that is the result; a result of zero keeps the
  sign of \<open>x\<close>.
\<close>

definition round_to :: "nat \<Rightarrow> rat \<Rightarrow> rat" where
  "round_to n x = of_int (round_half_even (x * 10 ^ n)) / 10 ^ n"

fun py_round :: "pynum \<Rightarrow> nat \<Rightarrow> pynum" where
  "py_round (PyInt a) n = PyInt a"
| "py_round (PyFloat (Finite x)) n =
     PyFloat (if x = 0 then Finite 0
              else (case to_double (round_to n x) of
                      Finite y \<Rightarrow> if y = 0 then signed_zero (x < 0) else Finite y
                    | r \<Rightarrow> r))"
| "py_round (PyFloat f) n = PyFloat f"

text \<open>The response dict of \<^verbatim>\<open>checkout\<close>; the key \<^verbatim>\<open>total\<close> is written \<open>total'\<close>.\<close>

record CheckoutResponse =
  status :: string
  message :: string
  total' :: pynum
  currency :: string
  redirect_url :: "string option"

text \<open>The handler \<^verbatim>\<open>checkout\<close>: the dict it returns, or the error it raises.\<close>

definition checkout :: "bool \<Rightarrow> CheckoutRequest \<Rightarrow> error + CheckoutResponse" where
  "checkout compensated req =
     (case line_totals (items req) of
        Inl e \<Rightarrow> Inl e
      | Inr ts \<Rightarrow>
          let total = py_sum compensated ts
          in Inr \<lparr>status = ''ok'', message = ''Checkout session created'',
                  total' = py_round total 2, currency = ''USD'', redirect_url = None\<rparr>)"

text \<open>
  \<^verbatim>\<open>POST /checkout\<close>: validation of the body, the handler, and the rendering of
  the returned dict as JSON, which raises \<^verbatim>\<open>ValueError\<close> on a float that is
  infinite or NaN.
\<close>

fun json_compliant :: "pynum \<Rightarrow> bool" where
  "json_compliant (PyInt a) = True"
| "json_compliant (PyFloat f) = is_finite f"

definition post_checkout :: "bool \<Rightarrow> pyval \<Rightarrow> error + CheckoutResponse" where
  "post_checkout compensated body =
     (case CheckoutRequest_validate body of
        None \<Rightarrow> Inl RequestValidationError
      | Some req \<Rightarrow>
          (case checkout compensated req of
             Inl e \<Rightarrow> Inl e
           | Inr r \<Rightarrow> if json_compliant (total' r) then Inr r else Inl ValueError))"

text \<open>The JSON body that carries a typed request.\<close>

definition json_of_CheckoutItem :: "CheckoutItem \<Rightarrow> pyval" where
  "json_of_CheckoutItem i =
     VDict [(''id'', VStr (item_id i)), (''title'', VStr (item_title i)),
            (''price'', VFloat (item_price i)), (''qty'', VInt (qty i))]"

definition json_of_CheckoutRequest :: "CheckoutRequest \<Rightarrow> pyval" where
  "json_of_CheckoutRequest req =
     VDict [(''items'', VList (map json_of_CheckoutItem (items req))),
            (''email'', opt_str (email req))]"

section \<open>The document store\<close>

text \<open>
  \<^verbatim>\<open>main.py\<close> imports \<^verbatim>\<open>db\<close>, \<^verbatim>\<open>create_document\<close> and \<^verbatim>\<open>get_documents\<close> from
  the module \<^verbatim>\<open>database\<close> and \<^verbatim>\<open>Product\<close> from the module \<^verbatim>\<open>schemas\<close>; neither
  module is among the sources.  The handlers only ever name the collection
  \<^verbatim>\<open>"product"\<close>, so the store is that collection, in insertion order, together
  with the identifier the store will assign next.
\<close>

record store =
  product :: "doc list"
  next_id :: "96 word"

text \<open>
  Modelled from the spec: \<^verbatim>\<open>create_document\<close> of the missing module
  \<^verbatim>\<open>database\<close>.  ``\<^verbatim>\<open>createDocument(collection, record) \<rightarrow> id\<close>'', where the id is
  ``assigned by the store on creation, immutable, unique within the collection'';
  the result is the identifier's string form, which \<^verbatim>\<open>create_product\<close> converts
  back with \<^verbatim>\<open>ObjectId(inserted_id)\<close>.
\<close>

definition create_document :: "store \<Rightarrow> doc \<Rightarrow> store \<times> string" where
  "create_document s rec =
     (let oid = next_id s in
      (s\<lparr>product := product s @ [(''_id'', VOid oid) # rec], next_id := oid + 1\<rparr>,
       oid_str oid))"

text \<open>
  Modelled from the spec: \<^verbatim>\<open>get_documents\<close> of the missing module \<^verbatim>\<open>database\<close>.
  ``\<^verbatim>\<open>getDocuments(collection) \<rightarrow> sequence of raw records\<close>''.
\<close>

definition get_documents :: "store \<Rightarrow> doc list" where
  "get_documents s = product s"

text \<open>
  \<^verbatim>\<open>db["product"].find_one({"_id": oid})\<close>: the first record whose \<^verbatim>\<open>_id\<close> is
  the identifier \<open>oid\<close>, or \<^verbatim>\<open>None\<close>.
\<close>

definition find_one_by_id :: "store \<Rightarrow> 96 word \<Rightarrow> doc option" where
  "find_one_by_id s oid = find (\<lambda>d. map_of d ''_id'' = Some (VOid oid)) (product s)"

text \<open>
  Modelled from the spec: \<^verbatim>\<open>db["product"].find_one(sort=[("_id", -1)])\<close>, the
  fallback of \<^verbatim>\<open>create_product\<close> when \<^verbatim>\<open>ObjectId\<close> could not be imported.  ``The
  source falls back to "most recently inserted record" when the identifier type is
  unavailable.''
\<close>

definition find_one_latest :: "store \<Rightarrow> doc option" where
  "find_one_latest s = (if product s = [] then None else Some (last (product s)))"

text \<open>
  Modelled from the spec: \<^verbatim>\<open>Product(...).model_dump()\<close> of the missing module
  \<^verbatim>\<open>schemas\<close>, for the five fields the source passes to the constructor.  The
  price is a ``non-negative number'', and a product with the price -5 ``is
  rejected''.
\<close>

fun float_lt_zero :: "pyfloat \<Rightarrow> bool" where
  "float_lt_zero (Finite x) = (x < 0)"
| "float_lt_zero NegInf = True"
| "float_lt_zero _ = False"

definition ProductSchema_dump ::
  "string \<Rightarrow> string option \<Rightarrow> pyfloat \<Rightarrow> string \<Rightarrow> bool \<Rightarrow> error + doc" where
  "ProductSchema_dump t de p c s =
     (if float_lt_zero p then Inl ValidationError
      else Inr [(''title'', VStr t), (''description'', opt_str de), (''price'', VFloat p),
                (''category'', VStr c), (''in_stock'', VBool s)])"

text \<open>
  The process: \<^verbatim>\<open>db\<close> is \<^verbatim>\<open>None\<close> when the store is unavailable, and the name
  \<^verbatim>\<open>ObjectId\<close> is \<^verbatim>\<open>None\<close> when the import of \<^verbatim>\<open>bson\<close> failed.
\<close>

record env =
  db :: "store option"
  has_ObjectId :: bool

section \<open>Product routes\<close>

text \<open>The list \<^verbatim>\<open>seed\<close> that \<^verbatim>\<open>list_products\<close> builds: three dumps, then an image each.\<close>

definition seed :: "error + doc list" where
  "seed =
     (case ProductSchema_dump ''Carbon Wallet''
             (Some ''Slim carbon fiber wallet with RFID blocking.'') (Finite 89) ''Accessories'' True of
        Inl e \<Rightarrow> Inl e
      | Inr s0 \<Rightarrow>
     (case ProductSchema_dump ''Monochrome Sneakers''
             (Some ''Minimalist sneakers with premium materials.'') (Finite 159) ''Footwear'' True of
        Inl e \<Rightarrow> Inl e
      | Inr s1 \<Rightarrow>
     (case ProductSchema_dump ''Minimal Watch''
             (Some ''Matte black timepiece with sapphire glass.'') (Finite 129) ''Watches'' True of
        Inl e \<Rightarrow> Inl e
      | Inr s2 \<Rightarrow>
          Inr [AList.update ''image'' (VStr ''https://images.unsplash.com/photo-1585401586477-2a671e1cae4e?ixlib=rb-4.1.0&w=1600&auto=format&fit=crop&q=80'') s0,
               AList.update ''image'' (VStr ''https://images.unsplash.com/photo-1519741497674-611481863552?q=80&w=1600&auto=format&fit=crop'') s1,
               AList.update ''image'' (VStr ''https://images.unsplash.com/photo-1524805444758-089113d48a6d?q=80&w=1600&auto=format&fit=crop'') s2])))"

text \<open>\<^verbatim>\<open>for s in seed: create_document("product", s)\<close>.\<close>

fun insert_all :: "doc list \<Rightarrow> store \<Rightarrow> store" where
  "insert_all [] s = s"
| "insert_all (d # ds) s = insert_all ds (fst (create_document s d))"

text \<open>\<^verbatim>\<open>[_format_product(doc) for doc in docs]\<close>: the first failure ends the comprehension.\<close>

fun format_all :: "doc list \<Rightarrow> error + ProductOut list" where
  "format_all [] = Inr []"
| "format_all (d # ds) =
     (case format_product (Some d) of
        Inl e \<Rightarrow> Inl e
      | Inr p \<Rightarrow> (case format_all ds of Inl e \<Rightarrow> Inl e | Inr ps \<Rightarrow> Inr (p # ps)))"

text \<open>
  \<^verbatim>\<open>list_products\<close>.  The result is the response or the error raised, and the
  process after the call: what was inserted stays inserted when formatting fails.
\<close>

definition list_products :: "env \<Rightarrow> (error + ProductOut list) \<times> env" where
  "list_products e =
     (case db e of
        None \<Rightarrow> (Inr [], e)
      | Some s \<Rightarrow>
          let docs = get_documents s in
          if length docs = 0
          then (case seed of
                  Inl err \<Rightarrow> (Inl err, e)
                | Inr sd \<Rightarrow>
                    let s' = insert_all sd s; docs' = get_documents s'
                    in (format_all docs', e\<lparr>db := Some s'\<rparr>))
          else (format_all docs, e))"

text \<open>\<^verbatim>\<open>create_product\<close>, on a validated \<^verbatim>\<open>ProductIn\<close>.\<close>

definition create_product :: "env \<Rightarrow> ProductIn \<Rightarrow> (error + ProductOut) \<times> env" where
  "create_product e p =
     (case db e of
        None \<Rightarrow> (Inl (HTTPException 503 ''Database not available''), e)
      | Some s \<Rightarrow>
          (case ProductSchema_dump (title p) (description p) (price p) (category p)
                  (in_stock p) of
             Inl err \<Rightarrow> (Inl err, e)
           | Inr prod0 \<Rightarrow>
               let prod = AList.update ''image'' (opt_str (image' p)) prod0;
                   (s', inserted_id) = create_document s prod;
                   e' = e\<lparr>db := Some s'\<rparr>
               in if has_ObjectId e
                  then (case ObjectId inserted_id of
                          None \<Rightarrow> (Inl InvalidId, e')
                        | Some oid \<Rightarrow> (format_product (find_one_by_id s' oid), e'))
                  else (format_product (find_one_latest s'), e')))"

text \<open>
  \<^verbatim>\<open>get_product\<close>.  Inside the \<^verbatim>\<open>try\<close>, \<^verbatim>\<open>ObjectId(product_id)\<close> raising leaves
  \<^verbatim>\<open>doc\<close> at \<^verbatim>\<open>None\<close>.
\<close>

definition get_product :: "env \<Rightarrow> string \<Rightarrow> error + ProductOut" where
  "get_product e product_id =
     (case db e of
        None \<Rightarrow> Inl (HTTPException 503 ''Database not available'')
      | Some s \<Rightarrow>
          let doc = (if has_ObjectId e
                     then (case ObjectId product_id of
                             None \<Rightarrow> None
                           | Some oid \<Rightarrow> find_one_by_id s oid)
                     else None)
          in if doc = None then Inl (HTTPException 404 ''Product not found'')
             else format_product doc)"

section \<open>Sequences of calls, and calls that overlap\<close>

text \<open>
  The calls a client can make, and the process after a call.  \<^verbatim>\<open>get_product\<close> and
  \<^verbatim>\<open>checkout\<close> write nothing.
\<close>

datatype call = ListProducts | CreateProduct ProductIn | GetProduct string | Checkout pyval

fun serve :: "env \<Rightarrow> call \<Rightarrow> env" where
  "serve e ListProducts = snd (list_products e)"
| "serve e (CreateProduct p) = snd (create_product e p)"
| "serve e (GetProduct i) = e"
| "serve e (Checkout body) = e"

text \<open>
  The handlers are plain \<^verbatim>\<open>def\<close>s, which the framework runs on worker threads, so
  two calls of \<^verbatim>\<open>list_products\<close> can overlap.  A call in progress is at one of
  three places, and each step of it is one operation on the store: the first
  \<^verbatim>\<open>get_documents\<close> with the test \<^verbatim>\<open>len(docs) == 0\<close>, one \<^verbatim>\<open>create_document\<close> of
  the loop over \<^verbatim>\<open>seed\<close>, or the second \<^verbatim>\<open>get_documents\<close> when the loop is
  exhausted.  (The store is available: \<^verbatim>\<open>db is None\<close> returns before any of this.)
\<close>

datatype listing = L_start | L_insert "doc list" | L_done "error + ProductOut list"

fun listing_step :: "listing \<Rightarrow> store \<Rightarrow> listing \<times> store" where
  "listing_step L_start s =
     (let docs = get_documents s in
      if length docs = 0
      then (case seed of Inl err \<Rightarrow> (L_done (Inl err), s) | Inr sd \<Rightarrow> (L_insert sd, s))
      else (L_done (format_all docs), s))"
| "listing_step (L_insert (d # ds)) s = (L_insert ds, fst (create_document s d))"
| "listing_step (L_insert []) s = (L_done (format_all (get_documents s)), s)"
| "listing_step (L_done r) s = (L_done r, s)"

text \<open>
  Calls in progress share the store.  A schedule names, step by step, the call
  that moves next.
\<close>

fun sched_step :: "listing list \<times> store \<Rightarrow> nat \<Rightarrow> listing list \<times> store" where
  "sched_step (ts, s) i =
     (if i < length ts
      then (let (t', s') = listing_step (ts ! i) s in (ts[i := t'], s'))
      else (ts, s))"

definition run_schedule :: "nat list \<Rightarrow> listing list \<times> store \<Rightarrow> listing list \<times> store" where
  "run_schedule sched st = foldl sched_step st sched"

text \<open>The store is available and the product collection holds a record.\<close>

definition populated :: "env \<Rightarrow> bool" where
  "populated e = (case db e of None \<Rightarrow> False | Some s \<Rightarrow> product s \<noteq> [])"

section \<open>Record normalization\<close>

lemma map_of_setdefault:
  "map_of (setdefault k v d) j =
     (if j = k then (case map_of d k of None \<Rightarrow> Some v | Some x \<Rightarrow> Some x) else map_of d j)"
  by (auto simp: setdefault_def map_add_def split: option.splits)

lemma to_id_str_Some: "\<exists>d. to_id_str (Some doc) = Some d"
  by (auto split: option.splits)

lemma map_of_to_id_str:
  assumes "to_id_str (Some doc) = Some d" "k \<noteq> ''id''" "k \<noteq> ''_id''"
  shows "map_of d k = map_of doc k"
  using assms by (auto simp: AList.update_conv' AList.delete_conv' split: if_splits option.splits)

lemma map_of_ensure_fields:
  "map_of (ensure_fields d) k =
     (case map_of d k of
        Some v \<Rightarrow> Some v
      | None \<Rightarrow>
          if k = ''title'' then Some (VStr ''Untitled'')
          else if k = ''price'' then Some (VFloat (Finite 0))
          else if k = ''category'' then Some (VStr ''General'')
          else if k = ''description'' then Some VNone
          else if k = ''image'' then Some VNone
          else if k = ''in_stock'' then Some (VBool True)
          else None)"
  by (simp add: ensure_fields_def map_of_setdefault split: option.splits)

lemma validate_str_Some: "validate_str v = Some s \<longleftrightarrow> v = VStr s"
  by (cases v) auto

lemma validate_optional_str_Some:
  "validate_optional validate_str v = Some x \<longleftrightarrow> v = opt_str x"
  by (cases v; cases x) (auto simp: validate_optional_def opt_str_def)

lemma ProductOut_init_Inr:
  assumes "ProductOut_init d = Inr p"
  shows "required validate_str d ''title'' = Some (title p)"
    and "required validate_float d ''price'' = Some (price p)"
    and "required validate_str d ''category'' = Some (category p)"
    and "with_default (validate_optional validate_str) None d ''description'' = Some (description p)"
    and "with_default (validate_optional validate_str) None d ''image'' = Some (image' p)"
    and "with_default validate_bool True d ''in_stock'' = Some (in_stock p)"
    and "required validate_str d ''id'' = Some (id' p)"
  using assms
  by (auto simp: ProductOut_init_def bind_eq_Some_conv split: option.splits)

text \<open>
  C1.  Whenever \<^verbatim>\<open>_format_product\<close> returns a product for a raw document, each of
  the six fields title, price, category, description, image and in_stock of the
  product is the documented default exactly when the key is absent from the
  document, and is the document's own value when the key is present: a string
  (the empty one included) and an optional string are returned as they are, and
  price and in_stock are the document's value as validated for the field's type,
  so an explicit \<^verbatim>\<open>False\<close> stays \<^verbatim>\<open>False\<close>.
\<close>

theorem format_product_defaults:
  assumes "format_product (Some doc) = Inr p"
  shows "(case map_of doc ''title'' of
            None \<Rightarrow> title p = ''Untitled'' | Some v \<Rightarrow> v = VStr (title p)) \<and>
         (case map_of doc ''price'' of
            None \<Rightarrow> price p = Finite 0 | Some v \<Rightarrow> validate_float v = Some (price p)) \<and>
         (case map_of doc ''category'' of
            None \<Rightarrow> category p = ''General'' | Some v \<Rightarrow> v = VStr (category p)) \<and>
         (case map_of doc ''description'' of
            None \<Rightarrow> description p = None | Some v \<Rightarrow> v = opt_str (description p)) \<and>
         (case map_of doc ''image'' of
            None \<Rightarrow> image' p = None | Some v \<Rightarrow> v = opt_str (image' p)) \<and>
         (case map_of doc ''in_stock'' of
            None \<Rightarrow> in_stock p = True | Some v \<Rightarrow> validate_bool v = Some (in_stock p))"
proof -
  obtain d where d: "to_id_str (Some doc) = Some d"
    using to_id_str_Some by blast
  with assms have init: "ProductOut_init (ensure_fields d) = Inr p"
    by (simp add: format_product_def)
  have keep: "map_of d k = map_of doc k" if "k \<noteq> ''id''" "k \<noteq> ''_id''" for k
    using map_of_to_id_str [OF d that] .
  note fs = ProductOut_init_Inr [OF init]
  have 1: "(case map_of doc ''title'' of
              None \<Rightarrow> title p = ''Untitled'' | Some v \<Rightarrow> v = VStr (title p))"
    using fs(1)
    by (auto simp: required_def map_of_ensure_fields keep validate_str_Some split: option.splits)
  have 2: "(case map_of doc ''price'' of
              None \<Rightarrow> price p = Finite 0 | Some v \<Rightarrow> validate_float v = Some (price p))"
    using fs(2) by (auto simp: required_def map_of_ensure_fields keep split: option.splits)
  have 3: "(case map_of doc ''category'' of
              None \<Rightarrow> category p = ''General'' | Some v \<Rightarrow> v = VStr (category p))"
    using fs(3)
    by (auto simp: required_def map_of_ensure_fields keep validate_str_Some split: option.splits)
  have 4: "(case map_of doc ''description'' of
              None \<Rightarrow> description p = None | Some v \<Rightarrow> v = opt_str (description p))"
    using fs(4)
    by (auto simp: with_default_def map_of_ensure_fields keep validate_optional_str_Some
        opt_str_def split: option.splits)
  have 5: "(case map_of doc ''image'' of
              None \<Rightarrow> image' p = None | Some v \<Rightarrow> v = opt_str (image' p))"
    using fs(5)
    by (auto simp: with_default_def map_of_ensure_fields keep validate_optional_str_Some
        opt_str_def split: option.splits)
  have 6: "(case map_of doc ''in_stock'' of
              None \<Rightarrow> in_stock p = True | Some v \<Rightarrow> validate_bool v = Some (in_stock p))"
    using fs(6) by (auto simp: with_default_def map_of_ensure_fields keep split: option.splits)
  from 1 2 3 4 5 6 show ?thesis by blast
qed

text \<open>
  A document with an explicit empty title and an explicit \<^verbatim>\<open>False\<close> for in_stock, and
  none of the other four fields: the two explicit values are kept, the other four
  fields take their defaults.
\<close>

theorem format_product_defaults_witness:
  "format_product
     (Some [(''_id'', VOid 255), (''title'', VStr ''''), (''in_stock'', VBool False)]) =
   Inr \<lparr>title = '''', price = Finite 0, category = ''General'', description = None,
        image' = None, in_stock = False, id' = ''0000000000000000000000ff''\<rparr> \<and>
   VStr '''' = VStr (title \<lparr>title = '''', price = Finite 0, category = ''General'',
        description = None, image' = None, in_stock = False,
        id' = ''0000000000000000000000ff''\<rparr>) \<and>
   validate_bool (VBool False) = Some (in_stock \<lparr>title = '''', price = Finite 0,
        category = ''General'', description = None, image' = None, in_stock = False,
        id' = ''0000000000000000000000ff''\<rparr>)"
proof -
  have h: "format_product
     (Some [(''_id'', VOid 255), (''title'', VStr ''''), (''in_stock'', VBool False)]) =
   Inr \<lparr>title = '''', price = Finite 0, category = ''General'', description = None,
        image' = None, in_stock = False, id' = ''0000000000000000000000ff''\<rparr>"
    by code_simp
  from format_product_defaults [OF h] h show ?thesis by simp
qed

lemma format_product_dict_of: "format_product (Some (dict_of_ProductOut p)) = Inr p"
  by (simp add: format_product_def dict_of_ProductOut_def ensure_fields_def setdefault_def
      ProductOut_init_def required_def with_default_def validate_optional_def opt_str_def
      split: option.splits)

text \<open>
  C2.  Normalization is idempotent: when \<^verbatim>\<open>_format_product\<close> returns the product
  \<open>p\<close> for a raw document, applying \<^verbatim>\<open>_format_product\<close> to \<open>p\<close> itself returns
  \<open>p\<close> again.  (Given a model instance, \<^verbatim>\<open>_to_id_str\<close> finds it truthy and copies it
  with \<^verbatim>\<open>dict(p)\<close>.)
\<close>

theorem format_product_idempotent:
  assumes "format_product (Some doc) = Inr p"
  shows "format_product (Some (dict_of_ProductOut p)) = Inr p"
  by (rule format_product_dict_of)

theorem format_product_idempotent_witness:
  "format_product (Some (dict_of_ProductOut
      \<lparr>title = ''Carbon Wallet'', price = Finite 89, category = ''Accessories'',
       description = Some ''Slim'', image' = None, in_stock = True,
       id' = ''00000000000000000000002a''\<rparr>)) =
   Inr \<lparr>title = ''Carbon Wallet'', price = Finite 89, category = ''Accessories'',
        description = Some ''Slim'', image' = None, in_stock = True,
        id' = ''00000000000000000000002a''\<rparr>"
proof -
  have h: "format_product
      (Some [(''_id'', VOid 42), (''title'', VStr ''Carbon Wallet''), (''price'', VFloat (Finite 89)),
             (''category'', VStr ''Accessories''), (''description'', VStr ''Slim'')]) =
    Inr \<lparr>title = ''Carbon Wallet'', price = Finite 89, category = ''Accessories'',
         description = Some ''Slim'', image' = None, in_stock = True,
         id' = ''00000000000000000000002a''\<rparr>"
    by code_simp
  from format_product_idempotent [OF h] show ?thesis .
qed

section \<open>Floats\<close>

lemma pow2_powi: "pow2 k = 2 powi k"
proof (cases "0 \<le> k")
  case True
  then show ?thesis by (simp add: pow2_def power_int_def)
next
  case False
  then show ?thesis
    by (simp add: pow2_def power_int_def power_one_over inverse_eq_divide)
qed

lemma pow2_pos: "0 < pow2 k"
  by (simp add: pow2_powi)

lemma pow2_add: "pow2 (a + b) = pow2 a * pow2 b"
  by (simp add: pow2_powi power_int_add)

lemma pow2_mono: "a \<le> b \<Longrightarrow> pow2 a \<le> pow2 b"
  by (simp add: pow2_powi power_int_increasing)

lemma pow2_bitlen:
  assumes "0 < p"
  shows "pow2 (bitlen p - 1) \<le> of_int p" and "of_int p < pow2 (bitlen p)"
proof -
  from bitlen_bounds [OF assms]
  have lo: "2 ^ nat (bitlen p - 1) \<le> p" and hi: "p < 2 ^ nat (bitlen p)" by simp_all
  have b1: "1 \<le> bitlen p" using assms by (auto simp: bitlen_alt_def)
  have "pow2 (bitlen p - 1) = of_int (2 ^ nat (bitlen p - 1))"
    using b1 by (simp add: pow2_def)
  also have "\<dots> \<le> of_int p" using lo by (simp only: of_int_le_iff)
  finally show "pow2 (bitlen p - 1) \<le> of_int p" .
  have "(of_int p :: rat) < of_int (2 ^ nat (bitlen p))" using hi by (simp only: of_int_less_iff)
  also have "\<dots> = pow2 (bitlen p)" using b1 by (simp add: pow2_def)
  finally show "of_int p < pow2 (bitlen p)" .
qed

text \<open>\<open>floor_log2 x\<close> is the exponent of the power of two at or below \<open>\<bar>x\<bar>\<close>.\<close>

lemma floor_log2_bounds:
  assumes "x \<noteq> 0"
  shows "pow2 (floor_log2 x) \<le> \<bar>x\<bar> \<and> \<bar>x\<bar> < pow2 (floor_log2 x + 1)"
proof -
  obtain p q where pq: "quotient_of \<bar>x\<bar> = (p, q)" by (cases "quotient_of \<bar>x\<bar>")
  then have q: "0 < q" and x: "\<bar>x\<bar> = of_int p / of_int q"
    by (simp_all add: quotient_of_denom_pos quotient_of_div)
  have "0 < \<bar>x\<bar>" using assms by simp
  then have p: "0 < p" using q x by (simp add: zero_less_divide_iff)
  define k where "k = bitlen p - bitlen q"
  have qpos: "(0::rat) < of_int q" using q by simp
  have up: "\<bar>x\<bar> < pow2 (k + 1)"
  proof -
    have "of_int p < pow2 (bitlen p)" by (rule pow2_bitlen(2) [OF p])
    also have "\<dots> = pow2 (k + 1) * pow2 (bitlen q - 1)"
      by (simp add: k_def pow2_add [symmetric])
    also have "\<dots> \<le> pow2 (k + 1) * of_int q"
      using pow2_bitlen(1) [OF q] pow2_pos [of "k + 1"] by (simp add: mult_left_mono)
    finally show ?thesis using qpos by (simp add: x pos_divide_less_eq)
  qed
  have lo: "pow2 (k - 1) \<le> \<bar>x\<bar>"
  proof -
    have "pow2 (k - 1) * of_int q \<le> pow2 (k - 1) * pow2 (bitlen q)"
      using pow2_bitlen(2) [OF q] pow2_pos [of "k - 1"] by (simp add: mult_left_mono)
    also have "\<dots> = pow2 (bitlen p - 1)"
      by (simp add: k_def pow2_add [symmetric])
    also have "\<dots> \<le> of_int p" by (rule pow2_bitlen(1) [OF p])
    finally show ?thesis using qpos by (simp add: x pos_le_divide_eq)
  qed
  have fl: "floor_log2 x = (if pow2 k \<le> \<bar>x\<bar> then k else k - 1)"
    by (simp add: floor_log2_def pq k_def Let_def)
  show ?thesis
  proof (cases "pow2 k \<le> \<bar>x\<bar>")
    case True
    then show ?thesis using up by (simp add: fl)
  next
    case False
    then show ?thesis using lo by (simp add: fl)
  qed
qed

text \<open>From \<open>2\<^sup>1\<^sup>0\<^sup>2\<^sup>4\<close> on, a number rounds to an infinity, and an int does not convert.\<close>

lemma to_double_overflow:
  assumes "2 ^ 1024 \<le> \<bar>x\<bar>"
  shows "to_double x = (if 0 < x then PosInf else NegInf)"
proof -
  have nz: "x \<noteq> 0" using assms by auto
  have "pow2 1024 \<le> \<bar>x\<bar>" using assms by (simp add: pow2_def)
  also have "\<bar>x\<bar> < pow2 (floor_log2 x + 1)" using floor_log2_bounds [OF nz] by simp
  finally have "pow2 1024 < pow2 (floor_log2 x + 1)" .
  then have "\<not> floor_log2 x + 1 \<le> 1024"
    using pow2_mono [of "floor_log2 x + 1" 1024] by auto
  then have big: "971 < max (floor_log2 x - 52) (- 1074)" by simp
  show ?thesis
    unfolding to_double_def Let_def by (simp only: nz big if_False if_True simp_thms)
qed

lemma float_of_int_overflow: "2 ^ 1024 \<le> \<bar>n\<bar> \<Longrightarrow> float_of_int n = None"
proof -
  assume "2 ^ 1024 \<le> \<bar>n\<bar>"
  then have "(of_int (2 ^ 1024) :: rat) \<le> of_int \<bar>n\<bar>" by (simp only: of_int_le_iff)
  then have "(2 :: rat) ^ 1024 \<le> \<bar>of_int n\<bar>" by simp
  from to_double_overflow [OF this] show ?thesis by (simp add: float_of_int_def)
qed

text \<open>
  The test for overflow in \<open>to_double\<close>: the significand lies between \<open>2\<^sup>5\<^sup>2\<close> and
  \<open>2\<^sup>5\<^sup>3\<close> (below \<open>2\<^sup>5\<^sup>2\<close> only at the smallest spacing), so the test on the exponent
  and the significand says that the rounded magnitude has reached \<open>2\<^sup>1\<^sup>0\<^sup>2\<^sup>4\<close>.
\<close>

lemma round_half_even_le: "x \<le> of_int n \<Longrightarrow> round_half_even x \<le> n"
proof -
  assume x: "x \<le> of_int n"
  then have f: "\<lfloor>x\<rfloor> \<le> n" by (simp add: floor_le_iff)
  show ?thesis
  proof (cases "\<lfloor>x\<rfloor> = n")
    case True
    then have "of_int n \<le> x" by (metis of_int_floor_le)
    with x have "x = of_int n" by simp
    then show ?thesis by (simp add: round_half_even_def)
  next
    case False
    with f have "\<lfloor>x\<rfloor> + 1 \<le> n" by simp
    then show ?thesis by (auto simp: round_half_even_def Let_def)
  qed
qed

lemma round_half_even_ge: "of_int n \<le> x \<Longrightarrow> n \<le> round_half_even x"
proof -
  assume "of_int n \<le> x"
  then have "n \<le> \<lfloor>x\<rfloor>" by (simp add: le_floor_iff)
  then show ?thesis by (auto simp: round_half_even_def Let_def)
qed

lemma round_half_even_of_int: "round_half_even (of_int n) = n"
  by (simp add: round_half_even_def)

lemma pow2_numeral: "pow2 (numeral k) = 2 ^ numeral k"
  by (simp add: pow2_def)

lemma pow2_diff: "pow2 (a - b) = pow2 a / pow2 b"
  by (simp add: pow2_powi power_int_diff)

lemma significand_bounds:
  assumes "x \<noteq> 0"
  defines "q \<equiv> max (floor_log2 x - 52) (- 1074)"
  defines "m \<equiv> round_half_even (\<bar>x\<bar> / pow2 q)"
  shows "m \<le> 2 ^ 53" and "q = floor_log2 x - 52 \<Longrightarrow> 2 ^ 52 \<le> m"
proof -
  from floor_log2_bounds [OF assms(1)]
  have lo: "pow2 (floor_log2 x) \<le> \<bar>x\<bar>" and hi: "\<bar>x\<bar> < pow2 (floor_log2 x + 1)" by simp_all
  have "pow2 (floor_log2 x + 1) = pow2 (53 + (floor_log2 x - 52))"
    by (rule arg_cong [where f = pow2]) simp
  also have "\<dots> = pow2 53 * pow2 (floor_log2 x - 52)"
    by (rule pow2_add)
  also have "\<dots> \<le> pow2 53 * pow2 q"
    using pow2_mono [of "floor_log2 x - 52" q] pow2_pos [of 53]
    by (simp add: q_def mult_left_mono)
  finally have "\<bar>x\<bar> < pow2 53 * pow2 q" using hi by simp
  then have "\<bar>x\<bar> / pow2 q \<le> of_int (2 ^ 53)"
    using pow2_pos [of q] by (simp add: pos_divide_le_eq pow2_numeral)
  then show "m \<le> 2 ^ 53" unfolding m_def by (rule round_half_even_le)
  assume eq: "q = floor_log2 x - 52"
  have "pow2 52 * pow2 q = pow2 (52 + q)"
    by (rule pow2_add [symmetric])
  also have "\<dots> = pow2 (floor_log2 x)"
    by (rule arg_cong [where f = pow2]) (simp add: eq)
  finally have "pow2 52 * pow2 q = pow2 (floor_log2 x)" .
  then have "of_int (2 ^ 52) \<le> \<bar>x\<bar> / pow2 q"
    using lo pow2_pos [of q] by (simp add: pos_le_divide_eq pow2_numeral)
  then show "2 ^ 52 \<le> m" unfolding m_def by (rule round_half_even_ge)
qed


lemma to_double_overflow_test:
  assumes "x \<noteq> 0"
  defines "q \<equiv> max (floor_log2 x - 52) (- 1074)"
  defines "m \<equiv> round_half_even (\<bar>x\<bar> / pow2 q)"
  shows "(971 < q \<or> q = 971 \<and> 2 ^ 53 \<le> m) \<longleftrightarrow> pow2 1024 \<le> of_int m * pow2 q"
proof -
  note sb = significand_bounds [OF assms(1), folded q_def m_def]
  have "(0::rat) \<le> \<bar>x\<bar> / pow2 q" using pow2_pos [of q] by simp
  then have "of_int 0 \<le> \<bar>x\<bar> / pow2 q" by simp
  then have m0: "0 \<le> m" unfolding m_def by (rule round_half_even_ge)
  have split: "pow2 1024 = pow2 (1024 - k) * pow2 k" for k
  proof -
    have "pow2 1024 = pow2 ((1024 - k) + k)" by (rule arg_cong [where f = pow2]) simp
    then show ?thesis by (simp only: pow2_add)
  qed
  show ?thesis
  proof (cases "971 < q")
    case True
    then have "q = floor_log2 x - 52" by (auto simp: q_def max_def split: if_splits)
    then have "2 ^ 52 \<le> m" by (rule sb(2))
    then have "(of_int (2 ^ 52) :: rat) \<le> of_int m" by (simp only: of_int_le_iff)
    then have m52: "pow2 52 \<le> of_int m" by (simp add: pow2_numeral)
    have "pow2 1024 = pow2 52 * pow2 972" using split [of 972] by simp
    also have "\<dots> \<le> of_int m * pow2 972"
      using m52 pow2_pos [of 972] by (simp add: mult_right_mono)
    also have "\<dots> \<le> of_int m * pow2 q"
      using pow2_mono [of 972 q] True m0 by (simp add: mult_left_mono)
    finally show ?thesis using True by simp
  next
    case False
    show ?thesis
    proof (cases "q = 971")
      case True
      have "pow2 1024 = pow2 53 * pow2 971" using split [of 971] by simp
      then have eq: "pow2 1024 \<le> of_int m * pow2 971 \<longleftrightarrow> pow2 53 \<le> of_int m"
        using pow2_pos [of 971] by simp
      have "pow2 53 \<le> (of_int m :: rat) \<longleftrightarrow> 2 ^ 53 \<le> m"
      proof -
        have "pow2 53 = of_int (2 ^ 53)" by (simp add: pow2_numeral)
        then show ?thesis by (simp only: of_int_le_iff)
      qed
      with eq show ?thesis using True by simp
    next
      case q: False
      with False have q970: "q \<le> 970" by simp
      have "(of_int m :: rat) \<le> of_int (2 ^ 53)" using sb(1) by (simp only: of_int_le_iff)
      then have m53: "of_int m \<le> pow2 53" by (simp add: pow2_numeral)
      have "of_int m * pow2 q \<le> pow2 53 * pow2 q"
        using m53 pow2_pos [of q] by (simp add: mult_right_mono)
      also have "\<dots> \<le> pow2 53 * pow2 970"
        using pow2_mono [OF q970] pow2_pos [of 53] by (simp add: mult_left_mono)
      also have "\<dots> = pow2 1023" using pow2_add [of 53 970] by simp
      also have "\<dots> < pow2 1024" by (simp add: pow2_numeral)
      finally show ?thesis using False q by simp
    qed
  qed
qed

section \<open>Checkout\<close>

lemma line_total_cases:
  "line_total i = Inl e \<longleftrightarrow> e = OverflowError \<and> float_of_int (qty i) = None"
  "line_total i = Inr t \<longleftrightarrow> (\<exists>q. float_of_int (qty i) = Some q \<and> t = fmul (item_price i) q)"
  by (auto simp: line_total_def split: option.splits)

lemma line_totals_Inl:
  "line_totals xs = Inl e \<longleftrightarrow>
     e = OverflowError \<and> (\<exists>i\<in>set xs. float_of_int (qty i) = None)"
proof (induction xs)
  case Nil
  then show ?case by simp
next
  case (Cons i xs)
  show ?case
  proof (cases "line_total i")
    case (Inl e')
    then have "e' = OverflowError" "float_of_int (qty i) = None"
      by (auto simp: line_total_cases)
    then show ?thesis by (auto simp: Inl)
  next
    case (Inr t)
    then have "float_of_int (qty i) \<noteq> None" by (auto simp: line_total_cases)
    then show ?thesis using Cons.IH by (auto simp: Inr split: sum.splits)
  qed
qed

lemma line_totals_Inr:
  "line_totals xs = Inr ts \<longleftrightarrow>
     list_all2 (\<lambda>i t. \<exists>q. float_of_int (qty i) = Some q \<and> t = fmul (item_price i) q) xs ts"
proof (induction xs arbitrary: ts)
  case Nil
  then show ?case by auto
next
  case (Cons i xs)
  show ?case
  proof (cases "line_total i")
    case (Inl e')
    then have "float_of_int (qty i) = None" by (auto simp: line_total_cases)
    then show ?thesis by (auto simp: Inl list_all2_Cons1)
  next
    case (Inr t)
    then obtain q where q: "float_of_int (qty i) = Some q" "t = fmul (item_price i) q"
      by (auto simp: line_total_cases)
    have "line_totals (i # xs) = Inr ts \<longleftrightarrow>
        (\<exists>zs. ts = t # zs \<and> line_totals xs = Inr zs)"
      by (auto simp: Inr split: sum.splits)
    also have "\<dots> \<longleftrightarrow>
        (\<exists>zs. ts = t # zs \<and>
           list_all2 (\<lambda>i t. \<exists>q. float_of_int (qty i) = Some q \<and> t = fmul (item_price i) q)
             xs zs)"
      by (simp only: Cons.IH)
    also have "\<dots> \<longleftrightarrow>
        list_all2 (\<lambda>i t. \<exists>q. float_of_int (qty i) = Some q \<and> t = fmul (item_price i) q)
          (i # xs) ts"
      using q by (auto simp: list_all2_Cons1)
    finally show ?thesis .
  qed
qed

lemma checkout_Inl: "checkout c req = Inl e \<longleftrightarrow> line_totals (items req) = Inl e"
  by (auto simp: checkout_def split: sum.splits)

lemma checkout_Inr:
  "checkout c req = Inr r \<longleftrightarrow>
     (\<exists>ts. line_totals (items req) = Inr ts \<and>
        r = \<lparr>status = ''ok'', message = ''Checkout session created'',
             total' = py_round (py_sum c ts) 2, currency = ''USD'', redirect_url = None\<rparr>)"
  by (auto simp: checkout_def split: sum.splits)

lemma example_line_totals:
  "line_totals [\<lparr>item_id = a, item_title = s, item_price = Finite 89, qty = 1\<rparr>,
                \<lparr>item_id = b, item_title = t, item_price = Finite 159, qty = 2\<rparr>] =
     Inr [Finite 89, Finite 318]"
proof -
  have 1: "float_of_int 1 = Some (Finite 1)" by code_simp
  have 2: "float_of_int 2 = Some (Finite 2)" by code_simp
  have 3: "fmul (Finite 89) (Finite 1) = Finite 89" by code_simp
  have 4: "fmul (Finite 159) (Finite 2) = Finite 318" by code_simp
  show ?thesis by (simp add: line_total_def 1 2 3 4)
qed

lemma example_total: "py_round (py_sum c [Finite 89, Finite 318]) 2 = PyFloat (Finite 407)"
proof (cases c)
  case True
  have "py_round (py_sum True [Finite 89, Finite 318]) 2 = PyFloat (Finite 407)" by code_simp
  with True show ?thesis by simp
next
  case False
  have "py_round (py_sum False [Finite 89, Finite 318]) 2 = PyFloat (Finite 407)" by code_simp
  with False show ?thesis by simp
qed

lemma validate_json_item: "CheckoutItem_validate (json_of_CheckoutItem i) = Some i"
  by (simp add: json_of_CheckoutItem_def required_def)

lemma those_map_validate:
  "those (map (CheckoutItem_validate \<circ> json_of_CheckoutItem) xs) = Some xs"
  by (induction xs) (simp_all add: validate_json_item)

lemma validate_json: "CheckoutRequest_validate (json_of_CheckoutRequest req) = Some req"
  by (cases req; cases "email req")
    (simp_all add: json_of_CheckoutRequest_def required_def with_default_def
      those_map_validate validate_optional_def opt_str_def)

text \<open>
  C3, as the claim states it, fails: not every sequence of items gets a total.  For
  an item with the qty \<open>10\<^sup>4\<^sup>0\<^sup>0\<close> the product \<^verbatim>\<open>i.price * i.qty\<close> raises
  \<^verbatim>\<open>OverflowError\<close>, whichever way the interpreter sums.
\<close>

theorem checkout_raises_on_large_qty:
  "checkout False
     \<lparr>items = [\<lparr>item_id = ''a'', item_title = ''t'', item_price = Finite 1, qty = 10 ^ 400\<rparr>],
      email = None\<rparr> = Inl OverflowError \<and>
   checkout True
     \<lparr>items = [\<lparr>item_id = ''a'', item_title = ''t'', item_price = Finite 1, qty = 10 ^ 400\<rparr>],
      email = None\<rparr> = Inl OverflowError"
proof -
  have "float_of_int (10 ^ 400) = None"
    by (rule float_of_int_overflow) simp
  then show ?thesis by (simp add: checkout_def line_total_def)
qed

text \<open>
  C3, amended.  The handler \<^verbatim>\<open>checkout\<close> raises exactly when the qty of some item
  is too large to convert to float, and what it raises is \<^verbatim>\<open>OverflowError\<close>.
  Otherwise it returns status ok, the currency code USD, no redirect url, and as
  total the float products price times qty of the items, summed by the
  interpreter's \<^verbatim>\<open>sum\<close> and rounded to two decimals by \<^verbatim>\<open>round\<close>, all in binary64
  arithmetic.  For the items (price 89, qty 1) and (price 159, qty 2) the total is
  the float 407.
\<close>

theorem checkout_response:
  "(checkout c req = Inl err \<longleftrightarrow>
      err = OverflowError \<and> (\<exists>i\<in>set (items req). float_of_int (qty i) = None)) \<and>
   (checkout c req = Inr r \<longleftrightarrow>
      (\<exists>ts. list_all2 (\<lambda>i t. \<exists>q. float_of_int (qty i) = Some q \<and> t = fmul (item_price i) q)
              (items req) ts \<and>
            r = \<lparr>status = ''ok'', message = ''Checkout session created'',
                 total' = py_round (py_sum c ts) 2, currency = ''USD'',
                 redirect_url = None\<rparr>)) \<and>
   checkout c \<lparr>items = [\<lparr>item_id = a, item_title = s, item_price = Finite 89, qty = 1\<rparr>,
                         \<lparr>item_id = b, item_title = t, item_price = Finite 159, qty = 2\<rparr>],
                email = e\<rparr> =
     Inr \<lparr>status = ''ok'', message = ''Checkout session created'',
          total' = PyFloat (Finite 407), currency = ''USD'', redirect_url = None\<rparr>"
proof -
  have 1: "checkout c req = Inl err \<longleftrightarrow>
      err = OverflowError \<and> (\<exists>i\<in>set (items req). float_of_int (qty i) = None)"
    by (simp only: checkout_Inl line_totals_Inl)
  have 2: "checkout c req = Inr r \<longleftrightarrow>
      (\<exists>ts. list_all2 (\<lambda>i t. \<exists>q. float_of_int (qty i) = Some q \<and> t = fmul (item_price i) q)
              (items req) ts \<and>
            r = \<lparr>status = ''ok'', message = ''Checkout session created'',
                 total' = py_round (py_sum c ts) 2, currency = ''USD'',
                 redirect_url = None\<rparr>)"
    by (simp only: checkout_Inr line_totals_Inr)
  have 3: "checkout c \<lparr>items = [\<lparr>item_id = a, item_title = s, item_price = Finite 89, qty = 1\<rparr>,
                         \<lparr>item_id = b, item_title = t, item_price = Finite 159, qty = 2\<rparr>],
                email = e\<rparr> =
     Inr \<lparr>status = ''ok'', message = ''Checkout session created'',
          total' = PyFloat (Finite 407), currency = ''USD'', redirect_url = None\<rparr>"
    by (simp add: checkout_def example_line_totals example_total del: line_totals.simps)
  from 1 2 3 show ?thesis by blast
qed

text \<open>
  The price 0.005 with the qty 3: the product is the float 0.015, which lies below
  the decimal 0.015, and the total is the float 0.01.
\<close>

theorem checkout_response_witness:
  "checkout False
     \<lparr>items = [\<lparr>item_id = ''a'', item_title = ''t'', item_price = to_double (5 / 1000),
                qty = 3\<rparr>],
      email = None\<rparr> =
   Inr \<lparr>status = ''ok'', message = ''Checkout session created'',
        total' = PyFloat (to_double (1 / 100)), currency = ''USD'', redirect_url = None\<rparr> \<and>
   list_all2 (\<lambda>i t. \<exists>q. float_of_int (qty i) = Some q \<and> t = fmul (item_price i) q)
     [\<lparr>item_id = ''a'', item_title = ''t'', item_price = to_double (5 / 1000), qty = 3\<rparr>]
     [to_double (15 / 1000)]"
proof -
  have h: "checkout False
     \<lparr>items = [\<lparr>item_id = ''a'', item_title = ''t'', item_price = to_double (5 / 1000),
                qty = 3\<rparr>],
      email = None\<rparr> =
   Inr \<lparr>status = ''ok'', message = ''Checkout session created'',
        total' = PyFloat (to_double (1 / 100)), currency = ''USD'', redirect_url = None\<rparr>"
    by code_simp
  have q: "float_of_int 3 = Some (Finite 3)" by code_simp
  have p: "fmul (to_double (5 / 1000)) (Finite 3) = to_double (15 / 1000)" by code_simp
  from checkout_response
         [of False
             "\<lparr>items = [\<lparr>item_id = ''a'', item_title = ''t'',
                         item_price = to_double (5 / 1000), qty = 3\<rparr>], email = None\<rparr>"]
       h q p
  show ?thesis by simp
qed

text \<open>
  C4, as the claim states it, fails: a body whose first item has the price -5 and
  whose second item has the qty 0 validates, and the operation answers with the
  total -5.
\<close>

theorem checkout_accepts_negative_price_and_zero_qty:
  "post_checkout False
     (VDict [(''items'', VList
        [VDict [(''id'', VStr ''a''), (''title'', VStr ''t''),
                (''price'', VFloat (Finite (- 5))), (''qty'', VInt 1)],
         VDict [(''id'', VStr ''b''), (''title'', VStr ''u''),
                (''price'', VFloat (Finite 10)), (''qty'', VInt 0)]])]) =
   Inr \<lparr>status = ''ok'', message = ''Checkout session created'',
        total' = PyFloat (Finite (- 5)), currency = ''USD'', redirect_url = None\<rparr>"
  by code_simp

text \<open>
  C4, amended.  The checkout operation checks no range.  It fails with the
  validation error of the request (status 422) exactly when the body does not
  validate against the declared models, which fix the shape only: every request
  whose items carry a string id, a string title, a float price and an int qty
  validates whatever the values of price and qty, a negative price and a qty
  below 1 included.  Such a request is answered as the handler answers it, with
  status ok and the total, or with the handler's \<^verbatim>\<open>OverflowError\<close>, or with the
  \<^verbatim>\<open>ValueError\<close> of a total that is infinite or NaN and cannot be rendered.
\<close>

theorem post_checkout_checks_shape_only:
  "CheckoutRequest_validate (json_of_CheckoutRequest req) = Some req \<and>
   post_checkout c (json_of_CheckoutRequest req) =
     (case checkout c req of
        Inl err \<Rightarrow> Inl err
      | Inr r \<Rightarrow> if json_compliant (total' r) then Inr r else Inl ValueError) \<and>
   (post_checkout c body = Inl RequestValidationError \<longleftrightarrow>
      CheckoutRequest_validate body = None)"
proof -
  have 1: "post_checkout c (json_of_CheckoutRequest req) =
     (case checkout c req of
        Inl err \<Rightarrow> Inl err
      | Inr r \<Rightarrow> if json_compliant (total' r) then Inr r else Inl ValueError)"
    by (simp add: post_checkout_def validate_json)
  have 2: "post_checkout c body = Inl RequestValidationError \<longleftrightarrow>
      CheckoutRequest_validate body = None"
    by (auto simp: post_checkout_def checkout_Inl line_totals_Inl
        split: option.splits sum.splits)
  from validate_json 1 2 show ?thesis by blast
qed

theorem post_checkout_checks_shape_only_witness:
  "CheckoutRequest_validate (json_of_CheckoutRequest
      \<lparr>items = [\<lparr>item_id = ''a'', item_title = ''t'', item_price = Finite (- 5), qty = 0\<rparr>],
       email = None\<rparr>) =
     Some \<lparr>items = [\<lparr>item_id = ''a'', item_title = ''t'', item_price = Finite (- 5),
                     qty = 0\<rparr>],
           email = None\<rparr> \<and>
   post_checkout False (json_of_CheckoutRequest
      \<lparr>items = [\<lparr>item_id = ''a'', item_title = ''t'', item_price = Finite (- 5), qty = 0\<rparr>],
       email = None\<rparr>) =
   Inr \<lparr>status = ''ok'', message = ''Checkout session created'',
        total' = PyFloat (Finite 0), currency = ''USD'', redirect_url = None\<rparr> \<and>
   post_checkout False (VDict [(''items'', VNone)]) = Inl RequestValidationError"
proof -
  have 1: "checkout False
      \<lparr>items = [\<lparr>item_id = ''a'', item_title = ''t'', item_price = Finite (- 5), qty = 0\<rparr>],
       email = None\<rparr> =
     Inr \<lparr>status = ''ok'', message = ''Checkout session created'',
        total' = PyFloat (Finite 0), currency = ''USD'', redirect_url = None\<rparr>"
    by code_simp
  have 2: "CheckoutRequest_validate (VDict [(''items'', VNone)]) = None"
    by (simp add: required_def)
  from post_checkout_checks_shape_only
         [of "\<lparr>items = [\<lparr>item_id = ''a'', item_title = ''t'', item_price = Finite (- 5),
                          qty = 0\<rparr>],
               email = None\<rparr>" False "VDict [(''items'', VNone)]"]
       1 2
  show ?thesis by simp
qed

text \<open>
  C10.  The response of the checkout operation does not depend on the email: two
  requests with the same items are answered alike, by the handler and by the
  operation as a whole.
\<close>

theorem checkout_ignores_email:
  assumes "items r1 = items r2"
  shows "checkout c r1 = checkout c r2 \<and>
         post_checkout c (json_of_CheckoutRequest r1) =
           post_checkout c (json_of_CheckoutRequest r2)"
  using assms by (simp add: post_checkout_def validate_json checkout_def)

theorem checkout_ignores_email_witness:
  "checkout False
     \<lparr>items = [\<lparr>item_id = ''a'', item_title = ''t'', item_price = Finite 89, qty = 1\<rparr>],
      email = None\<rparr> =
   checkout False
     \<lparr>items = [\<lparr>item_id = ''a'', item_title = ''t'', item_price = Finite 89, qty = 1\<rparr>],
      email = Some ''x@example.org''\<rparr> \<and>
   post_checkout False (json_of_CheckoutRequest
     \<lparr>items = [\<lparr>item_id = ''a'', item_title = ''t'', item_price = Finite 89, qty = 1\<rparr>],
      email = None\<rparr>) =
   post_checkout False (json_of_CheckoutRequest
     \<lparr>items = [\<lparr>item_id = ''a'', item_title = ''t'', item_price = Finite 89, qty = 1\<rparr>],
      email = Some ''x@example.org''\<rparr>)"
  using checkout_ignores_email
    [of "\<lparr>items = [\<lparr>item_id = ''a'', item_title = ''t'', item_price = Finite 89, qty = 1\<rparr>],
          email = None\<rparr>"
        "\<lparr>items = [\<lparr>item_id = ''a'', item_title = ''t'', item_price = Finite 89, qty = 1\<rparr>],
          email = Some ''x@example.org''\<rparr>" False]
  by simp

section \<open>Identifiers and lookup\<close>

lemma hex_value_hex_digit_all: "\<forall>d\<in>set [0..<16]. hex_value (hex_digit d) = Some d"
  by code_simp

lemma hex_value_hex_digit: "d < 16 \<Longrightarrow> hex_value (hex_digit d) = Some d"
  using hex_value_hex_digit_all by simp

lemma from_hex_append:
  "from_hex acc (xs @ ys) = (case from_hex acc xs of None \<Rightarrow> None | Some a \<Rightarrow> from_hex a ys)"
  by (induction xs arbitrary: acc) (simp_all split: option.splits)

lemma from_hex_to_hex: "from_hex acc (to_hex k n) = Some (acc * 16 ^ k + n mod 16 ^ k)"
proof (induction k arbitrary: n)
  case 0
  then show ?case by simp
next
  case (Suc k)
  have "n mod (16 * 16 ^ k) = 16 * (n div 16 mod 16 ^ k) + n mod 16"
    by (rule mod_mult2_eq)
  then show ?case
    by (simp add: from_hex_append Suc.IH hex_value_hex_digit algebra_simps)
qed

lemma length_to_hex: "length (to_hex k n) = k"
  by (induction k arbitrary: n) simp_all

lemma ObjectId_oid_str: "ObjectId (oid_str x) = Some x"
proof -
  have "unat x < 2 ^ 96"
    using unsigned_less [of x] by simp
  then have "unat x mod 16 ^ 24 = unat x" by simp
  then show ?thesis
    by (simp add: ObjectId_def oid_str_def length_to_hex from_hex_to_hex)
qed

text \<open>
  C9.  Converting an identifier of the store to its string form and the string
  back gives the identifier again; and where a record of the collection carries
  the identifier \<open>x\<close>, the lookup by the string form of \<open>x\<close> finds a record with
  that identifier and answers with its normalization.
\<close>

theorem ObjectId_roundtrip:
  "ObjectId (py_str (VOid x)) = Some x \<and>
   (db e = Some s \<and> has_ObjectId e \<and> d \<in> set (product s) \<and>
    map_of d ''_id'' = Some (VOid x) \<longrightarrow>
      (\<exists>d'\<in>set (product s). map_of d' ''_id'' = Some (VOid x) \<and>
         get_product e (py_str (VOid x)) = format_product (Some d')))"
proof -
  have lookup: "\<exists>d'\<in>set (product s). map_of d' ''_id'' = Some (VOid x) \<and>
         get_product e (py_str (VOid x)) = format_product (Some d')"
    if e: "db e = Some s" "has_ObjectId e"
      and d: "d \<in> set (product s)" "map_of d ''_id'' = Some (VOid x)"
  proof -
    have "find (\<lambda>d. map_of d ''_id'' = Some (VOid x)) (product s) \<noteq> None"
      using d by (auto simp: find_None_iff)
    then obtain d' where d': "find_one_by_id s x = Some d'"
      by (auto simp: find_one_by_id_def)
    then have "d' \<in> set (product s) \<and> map_of d' ''_id'' = Some (VOid x)"
      by (auto simp: find_one_by_id_def find_Some_iff)
    moreover have "get_product e (py_str (VOid x)) = format_product (Some d')"
      using e d' by (simp add: get_product_def ObjectId_oid_str)
    ultimately show ?thesis by blast
  qed
  then show ?thesis by (simp add: ObjectId_oid_str)
qed

theorem ObjectId_roundtrip_witness:
  "ObjectId (py_str (VOid 42)) = Some 42 \<and>
   get_product
     \<lparr>db = Some \<lparr>product = [[(''_id'', VOid 42), (''title'', VStr ''Minimal Watch'')]],
                 next_id = 43\<rparr>,
      has_ObjectId = True\<rparr>
     (py_str (VOid 42)) =
   format_product (Some [(''_id'', VOid 42), (''title'', VStr ''Minimal Watch'')])"
  using ObjectId_roundtrip
    [of 42
      "\<lparr>db = Some \<lparr>product = [[(''_id'', VOid 42), (''title'', VStr ''Minimal Watch'')]],
                   next_id = 43\<rparr>,
        has_ObjectId = True\<rparr>"
      "\<lparr>product = [[(''_id'', VOid 42), (''title'', VStr ''Minimal Watch'')]], next_id = 43\<rparr>"
      "[(''_id'', VOid 42), (''title'', VStr ''Minimal Watch'')]"]
  by simp

text \<open>
  C7, as the claim states it, fails when the store is unavailable: the lookup of
  a string that is no identifier then raises the 503 of the guard \<^verbatim>\<open>db is None\<close>,
  not the 404.
\<close>

theorem get_product_malformed_id_store_unavailable:
  "ObjectId ''not-an-id'' = None \<and>
   get_product \<lparr>db = None, has_ObjectId = True\<rparr> ''not-an-id'' =
     Inl (HTTPException 503 ''Database not available'')"
  by (simp add: ObjectId_def get_product_def)

text \<open>
  C7, amended.  When the store is available, the lookup of every string that
  \<^verbatim>\<open>ObjectId\<close> does not accept fails with the 404 ``Product not found'', and with
  nothing else.
\<close>

theorem get_product_malformed_id_not_found:
  assumes "db e = Some s" and "ObjectId product_id = None"
  shows "get_product e product_id = Inl (HTTPException 404 ''Product not found'')"
  using assms by (simp add: get_product_def)

theorem get_product_malformed_id_not_found_witness:
  "ObjectId ''not-an-id'' = None \<and>
   get_product
     \<lparr>db = Some \<lparr>product = [[(''_id'', VOid 42), (''title'', VStr ''Minimal Watch'')]],
                 next_id = 43\<rparr>,
      has_ObjectId = True\<rparr>
     ''not-an-id'' = Inl (HTTPException 404 ''Product not found'')"
proof -
  have bad: "ObjectId ''not-an-id'' = None"
    by (simp add: ObjectId_def)
  from get_product_malformed_id_not_found [OF _ bad] bad show ?thesis
    by simp
qed

section \<open>The store being unavailable\<close>

text \<open>
  C8, as the claim states it, fails for one read operation: with the store
  unavailable the lookup by id does not return an empty sequence, it raises the
  503.
\<close>

theorem get_product_store_unavailable_raises:
  "get_product \<lparr>db = None, has_ObjectId = True\<rparr> ''00000000000000000000002a'' =
     Inl (HTTPException 503 ''Database not available'')"
  by (simp add: get_product_def)

text \<open>
  C8, amended.  When the store is unavailable, the listing operation returns the
  empty sequence and not an error, and the creation of a product and the lookup
  by id both fail with the 503 ``Database not available''; the process is left
  as it was.
\<close>

theorem store_unavailable:
  assumes "db e = None"
  shows "list_products e = (Inr [], e) \<and>
         create_product e p = (Inl (HTTPException 503 ''Database not available''), e) \<and>
         get_product e product_id = Inl (HTTPException 503 ''Database not available'')"
  using assms by (simp add: list_products_def create_product_def get_product_def)

theorem store_unavailable_witness:
  "list_products \<lparr>db = None, has_ObjectId = True\<rparr> =
     (Inr [], \<lparr>db = None, has_ObjectId = True\<rparr>) \<and>
   create_product \<lparr>db = None, has_ObjectId = True\<rparr>
     \<lparr>title = ''Minimal Watch'', price = Finite 129, category = ''Watches'', description = None,
      image' = None, in_stock = True\<rparr> =
     (Inl (HTTPException 503 ''Database not available''), \<lparr>db = None, has_ObjectId = True\<rparr>) \<and>
   get_product \<lparr>db = None, has_ObjectId = True\<rparr> ''abc'' =
     Inl (HTTPException 503 ''Database not available'')"
  using store_unavailable
    [of "\<lparr>db = None, has_ObjectId = True\<rparr>"
        "\<lparr>title = ''Minimal Watch'', price = Finite 129, category = ''Watches'', description = None,
          image' = None, in_stock = True\<rparr>" "''abc''"]
  by simp

section \<open>Seeding\<close>

lemma seed_Inr: "\<exists>d0 d1 d2. seed = Inr [d0, d1, d2]"
  by (simp add: seed_def ProductSchema_dump_def)

lemma seed_keys:
  "seed = Inr sd \<Longrightarrow> map (map fst) sd =
     replicate 3 [''title'', ''description'', ''price'', ''category'', ''in_stock'', ''image'']"
  by (auto simp: seed_def ProductSchema_dump_def numeral_3_eq_3)

lemma create_document_store:
  "fst (create_document s d) =
     \<lparr>product = product s @ [(''_id'', VOid (next_id s)) # d], next_id = next_id s + 1\<rparr>"
  by (simp add: create_document_def Let_def)

lemma insert_all_3:
  "insert_all [d0, d1, d2] s =
     \<lparr>product = product s @ [(''_id'', VOid (next_id s)) # d0,
                             (''_id'', VOid (next_id s + 1)) # d1,
                             (''_id'', VOid (next_id s + 2)) # d2],
      next_id = next_id s + 3\<rparr>"
  by (simp add: create_document_store add.assoc)

lemma list_products_nonempty:
  assumes "db e = Some s" "product s \<noteq> []"
  shows "list_products e = (format_all (product s), e)"
  using assms by (simp add: list_products_def get_documents_def)

lemma list_products_empty:
  assumes "db e = Some s" "product s = []" "seed = Inr sd"
  shows "list_products e =
    (format_all (product (insert_all sd s)), e\<lparr>db := Some (insert_all sd s)\<rparr>)"
  using assms(1,2) by (simp add: assms(3) list_products_def get_documents_def Let_def)

lemma populated_serve: "populated e \<Longrightarrow> populated (serve e c)"
proof (cases c)
  case ListProducts
  assume "populated e"
  then show ?thesis using ListProducts
    by (auto simp: populated_def list_products_nonempty split: option.splits)
next
  case (CreateProduct p)
  assume "populated e"
  then show ?thesis using CreateProduct
    by (auto simp: populated_def create_product_def create_document_def Let_def
        split: option.splits sum.splits prod.splits)
qed simp_all

lemma populated_run: "populated e \<Longrightarrow> populated (foldl serve e calls)"
  by (induction calls arbitrary: e) (simp_all add: populated_serve)

lemma populated_list: "populated e \<Longrightarrow> snd (list_products e) = e"
  by (auto simp: populated_def list_products_nonempty split: option.splits)

text \<open>
  Calls taken one at a time.  With the store available, a listing call inserts
  nothing when it finds a record in the product collection.  When it finds none,
  it inserts the three records of \<^verbatim>\<open>seed\<close>, each with the keys title, description,
  price, category, in_stock and image and with an identifier of the store, and
  answers from the collection as read again.  After a listing call the collection
  holds a record, and from a collection that holds a record no sequence of calls,
  each finished before the next begins, leads to a listing call that inserts
  anything.
\<close>

lemma seeding_one_call_at_a_time:
  assumes "db e = Some s"
  shows "(product s \<noteq> [] \<longrightarrow> list_products e = (format_all (product s), e)) \<and>
         (product s = [] \<longrightarrow>
            (\<exists>d0 d1 d2.
               seed = Inr [d0, d1, d2] \<and>
               map (map fst) [d0, d1, d2] =
                 replicate 3 [''title'', ''description'', ''price'', ''category'',
                              ''in_stock'', ''image''] \<and>
               list_products e =
                 (format_all [(''_id'', VOid (next_id s)) # d0,
                              (''_id'', VOid (next_id s + 1)) # d1,
                              (''_id'', VOid (next_id s + 2)) # d2],
                  e\<lparr>db := Some \<lparr>product = [(''_id'', VOid (next_id s)) # d0,
                                            (''_id'', VOid (next_id s + 1)) # d1,
                                            (''_id'', VOid (next_id s + 2)) # d2],
                                 next_id = next_id s + 3\<rparr>\<rparr>))) \<and>
         populated (snd (list_products e)) \<and>
         (populated e \<longrightarrow>
            populated (foldl serve e calls) \<and>
            snd (list_products (foldl serve e calls)) = foldl serve e calls)"
proof -
  have full: "list_products e = (format_all (product s), e)" if "product s \<noteq> []"
    using assms that by (rule list_products_nonempty)
  obtain d0 d1 d2 where sd: "seed = Inr [d0, d1, d2]"
    using seed_Inr by blast
  have keys: "map (map fst) [d0, d1, d2] =
      replicate 3 [''title'', ''description'', ''price'', ''category'', ''in_stock'', ''image'']"
    using seed_keys [OF sd] .
  have empty: "list_products e =
      (format_all [(''_id'', VOid (next_id s)) # d0, (''_id'', VOid (next_id s + 1)) # d1,
                   (''_id'', VOid (next_id s + 2)) # d2],
       e\<lparr>db := Some \<lparr>product = [(''_id'', VOid (next_id s)) # d0,
                                 (''_id'', VOid (next_id s + 1)) # d1,
                                 (''_id'', VOid (next_id s + 2)) # d2],
                      next_id = next_id s + 3\<rparr>\<rparr>)"
    if "product s = []"
    using list_products_empty [OF assms that sd] unfolding insert_all_3 by (simp add: that)
  have after: "populated (snd (list_products e))"
  proof (cases "product s = []")
    case True
    then show ?thesis by (simp add: empty populated_def)
  next
    case False
    then show ?thesis using assms by (simp add: full populated_def)
  qed
  have later: "populated (foldl serve e calls) \<and>
      snd (list_products (foldl serve e calls)) = foldl serve e calls" if "populated e"
    using that by (simp add: populated_run populated_list)
  from full sd keys empty after later show ?thesis by blast
qed

text \<open>
  The steps of one listing call, taken alone and in order, are \<^verbatim>\<open>list_products\<close>:
  five steps end every call.
\<close>

lemma listing_alone:
  assumes "db e = Some s"
  shows "run_schedule (replicate 5 0) ([L_start], s) =
      ([L_done (fst (list_products e))], the (db (snd (list_products e))))"
proof (cases "product s = []")
  case True
  obtain d0 d1 d2 where sd: "seed = Inr [d0, d1, d2]" using seed_Inr by blast
  show ?thesis using assms True
    by (simp add: sd run_schedule_def numeral_eq_Suc list_products_def get_documents_def Let_def)
next
  case False
  then show ?thesis using assms
    by (simp add: run_schedule_def numeral_eq_Suc list_products_def get_documents_def Let_def)
qed

text \<open>
  C5.  The seeding runs when a listing call has found the collection empty, and
  it inserts the three seed records; but it does not hold that it never runs once
  a product exists.  Of two listing calls on an empty collection, let the second
  read the collection before the first has inserted, and let the first then
  insert its three records: the collection now holds three products, the second
  call is past its test, and its next step inserts a fourth record.
\<close>

theorem overlapping_listing_seeds_populated_collection:
  "fst (run_schedule [0, 1, 0, 0, 0] ([L_start, L_start], \<lparr>product = [], next_id = 0\<rparr>)) ! 1
     \<noteq> L_start \<and>
   length (product (snd (run_schedule [0, 1, 0, 0, 0]
     ([L_start, L_start], \<lparr>product = [], next_id = 0\<rparr>)))) = 3 \<and>
   length (product (snd (run_schedule [0, 1, 0, 0, 0, 1]
     ([L_start, L_start], \<lparr>product = [], next_id = 0\<rparr>)))) = 4"
  by code_simp

text \<open>
  C6.  Two listing calls on an empty product collection, the second reading the
  collection before the first has inserted: both find it empty, both insert the
  three seed records, and the collection ends with six records, where the claim
  asks for three.  Run one after the other, the same two calls leave three.
\<close>

theorem overlapping_listings_seed_twice:
  "length (product (snd (run_schedule [0, 1, 0, 0, 0, 0, 1, 1, 1, 1]
     ([L_start, L_start], \<lparr>product = [], next_id = 0\<rparr>)))) = 6 \<and>
   length (product (snd (run_schedule [0, 0, 0, 0, 0, 1, 1, 1, 1, 1]
     ([L_start, L_start], \<lparr>product = [], next_id = 0\<rparr>)))) = 3"
  by code_simp

end
